theory Spec2Isabelle
  imports Main "HOL-Library.Word" "HOL-Library.Signed_Division"
begin

unbundle bit_operations_syntax

section \<open>The Qt back end of the SQLite wrapper (platform/qt/src/sqlite3.cpp)\<close>

text \<open>
  The file wraps three Qt classes: \<open>QSqlDatabase\<close> (a connection handle),
  \<open>QSqlQuery\<close> (a statement with its bound values and its result rows) and
  \<open>QVariant\<close> (the dynamically typed value of a parameter or a column). Qt and the
  SQLite engine behind it are not part of the repository: the engine is a parameter of
  the model (a \<open>driver\<close>), and the few facts about the Qt classes that the wrapper
  relies on are written down once, in the subsection on the Qt objects.

  Every operation that can throw returns the state it leaves behind together with a
  value of \<open>failure + 'a\<close>: C++ keeps the side effects made before a \<open>throw\<close>.
\<close>

subsection \<open>Errors\<close>

text \<open>
  \<open>QSqlError::ErrorType\<close>. The enumerator \<open>QSqlError::NoError\<close> (value 0) is the
  type of a default-constructed \<open>QSqlError\<close>; it is the constructor \<open>NoError\<close> of
  \<open>QSqlError\<close> below, so that an engine can only report a failure together with one
  of the four real error types.
\<close>

datatype ErrorType = ConnectionError | StatementError | TransactionError | UnknownError

datatype QSqlError = NoError | Error ErrorType string

fun error_code :: "ErrorType \<Rightarrow> int" where
  "error_code ConnectionError = 1"
| "error_code StatementError = 2"
| "error_code TransactionError = 3"
| "error_code UnknownError = 4"

text \<open>
  What leaves a function other than by \<open>return\<close>: \<open>mapbox::sqlite::Exception\<close> with
  its code and message, \<open>std::range_error\<close> with its message, and the abort of a failed
  \<open>assert\<close> (which is no C++ exception: no handler catches it).
\<close>

datatype failure =
    is_Exception: Exception int string
  | is_range_error: range_error string
  | assertion_failed

text \<open>\<open>catch (...)\<close> around a call: every exception is dropped, an abort is not.\<close>

fun catch_all :: "failure + unit \<Rightarrow> failure + unit" where
  "catch_all (Inl assertion_failed) = Inl assertion_failed"
| "catch_all (Inl e) = Inr ()"
| "catch_all (Inr u) = Inr u"

subsection \<open>Values\<close>

text \<open>
  A \<open>double\<close> is carried as its 64 bits: the wrapper computes nothing with it.
\<close>

type_synonym double = "64 word"

text \<open>A \<open>QByteArray\<close> is null (\<open>None\<close>) or a sequence of bytes.\<close>

type_synonym QByteArray = "string option"

text \<open>
  A \<open>QVariant\<close> is null (\<open>QVariant()\<close>, and what the driver hands back for an SQL
  NULL) or holds a value of one of the types the SQLite driver knows. The byte array
  it holds can itself be null: that is what the driver hands back for a BLOB of length
  zero, a column that is not NULL.
\<close>

datatype QVariant =
    QNull
  | QLongLong int
  | QDouble double
  | QBool bool
  | QString string
  | QBytes QByteArray

definition constData :: "QByteArray \<Rightarrow> string" where
  "constData b = (case b of None \<Rightarrow> [] | Some s \<Rightarrow> s)"

text \<open>
  Qt's coercions between the payload types (a number read from a text column, the text
  of a number, ...) are a parameter: the wrapper passes them through unchanged.
\<close>

record conversions =
  toLongLong :: "QVariant \<Rightarrow> int"
  toDouble :: "QVariant \<Rightarrow> double"
  toBytes :: "QVariant \<Rightarrow> string"

text \<open>
  \<open>QVariant::isNull\<close> in Qt 5: a variant without a value is null, and so is one that
  holds a null byte array.
\<close>

definition isNull :: "QVariant \<Rightarrow> bool" where
  "isNull v = (v = QNull \<or> v = QBytes None)"

text \<open>
  \<open>QVariant::toByteArray\<close>: a null variant gives a null byte array; a byte array is
  returned as it is, null or not; text is returned as its bytes; any other value is
  converted by Qt to its text.
\<close>

definition toByteArray :: "conversions \<Rightarrow> QVariant \<Rightarrow> QByteArray" where
  "toByteArray cv v =
     (case v of
        QNull \<Rightarrow> None
      | QString s \<Rightarrow> Some s
      | QBytes b \<Rightarrow> b
      | _ \<Rightarrow> Some (toBytes cv v))"

text \<open>\<open>QVariant::value<T>()\<close> returns the stored value when the variant holds a \<open>T\<close>.\<close>

definition value_int64 :: "conversions \<Rightarrow> QVariant \<Rightarrow> int" where
  "value_int64 cv v = (case v of QLongLong n \<Rightarrow> n | _ \<Rightarrow> toLongLong cv v)"

definition value_double :: "conversions \<Rightarrow> QVariant \<Rightarrow> double" where
  "value_double cv v = (case v of QDouble d \<Rightarrow> d | _ \<Rightarrow> toDouble cv v)"

subsection \<open>The engine\<close>

text \<open>
  The engine answers four requests, each in the state \<open>'e\<close> of the outside world (the
  files, the locks held by other connections): opening a database file with a string of
  connect options, closing it, compiling a statement, and executing one with its bound
  values. A request that fails comes with an error; compiling may also be refused
  without one (\<open>Some NoError\<close>: Qt only prints a warning). \<open>drv_no_query\<close> is the
  error of executing a query whose statement did not compile.
\<close>

record 'e driver =
  drv_open :: "string \<Rightarrow> string \<Rightarrow> 'e \<Rightarrow> (ErrorType \<times> string) option \<times> 'e"
  drv_close :: "'e \<Rightarrow> (ErrorType \<times> string) option \<times> 'e"
  drv_prepare :: "string \<Rightarrow> 'e \<Rightarrow> QSqlError option"
  drv_exec :: "string \<Rightarrow> QVariant list \<Rightarrow> 'e \<Rightarrow> ((ErrorType \<times> string) + QVariant list list) \<times> 'e"
  drv_no_query :: "ErrorType \<times> string"

text \<open>
  The world of a run: the engine's state and, as an observation of the run, the text of
  every statement on which \<open>QSqlQuery::exec\<close> was called, oldest first.
\<close>

record 'e world =
  engine :: 'e
  submitted :: "string list"

subsection \<open>The Qt objects\<close>

record QSqlDatabase =
  connectionName :: string
  connectOptions :: string
  databaseName :: string
  isOpen :: bool
  db_lastError :: QSqlError

text \<open>\<open>QSqlDatabase::addDatabase("QSQLITE", name)\<close>: a closed handle without options.\<close>

definition addDatabase :: "string \<Rightarrow> QSqlDatabase" where
  "addDatabase name =
     \<lparr>connectionName = name, connectOptions = [], databaseName = [],
      isOpen = False, db_lastError = NoError\<rparr>"

definition db_open :: "'e driver \<Rightarrow> QSqlDatabase \<Rightarrow> 'e world \<Rightarrow> bool \<times> QSqlDatabase \<times> 'e world" where
  "db_open drv db w =
     (case drv_open drv (databaseName db) (connectOptions db) (engine w) of
        (None, e') \<Rightarrow> (True, db\<lparr>isOpen := True\<rparr>, w\<lparr>engine := e'\<rparr>)
      | (Some (t, msg), e') \<Rightarrow>
          (False, db\<lparr>isOpen := False, db_lastError := Error t msg\<rparr>, w\<lparr>engine := e'\<rparr>))"

definition db_close :: "'e driver \<Rightarrow> QSqlDatabase \<Rightarrow> 'e world \<Rightarrow> QSqlDatabase \<times> 'e world" where
  "db_close drv db w =
     (case drv_close drv (engine w) of
        (None, e') \<Rightarrow> (db\<lparr>isOpen := False\<rparr>, w\<lparr>engine := e'\<rparr>)
      | (Some (t, msg), e') \<Rightarrow>
          (db\<lparr>isOpen := False, db_lastError := Error t msg\<rparr>, w\<lparr>engine := e'\<rparr>))"

record QSqlQuery =
  lastQuery :: string
  prepared :: bool
  forwardOnly :: bool
  boundValues :: "QVariant list"
  lastError :: QSqlError
  pending :: "QVariant list list"
  current :: "QVariant list option"

text \<open>\<open>QSqlQuery(db)\<close>: a query without statement, values, error or rows.\<close>

definition new_query :: QSqlQuery where
  "new_query =
     \<lparr>lastQuery = [], prepared = False, forwardOnly = False, boundValues = [],
      lastError = NoError, pending = [], current = None\<rparr>"

definition setForwardOnly :: "bool \<Rightarrow> QSqlQuery \<Rightarrow> QSqlQuery" where
  "setForwardOnly b q = q\<lparr>forwardOnly := b\<rparr>"

text \<open>\<open>QSqlQuery::prepare\<close> forgets the rows and the error of an earlier statement.\<close>

definition query_prepare :: "'e driver \<Rightarrow> string \<Rightarrow> QSqlQuery \<Rightarrow> 'e world \<Rightarrow> bool \<times> QSqlQuery" where
  "query_prepare drv sql q w =
     (case drv_prepare drv sql (engine w) of
        None \<Rightarrow>
          (True, q\<lparr>lastQuery := sql, prepared := True, lastError := NoError,
                   pending := [], current := None\<rparr>)
      | Some err \<Rightarrow>
          (False, q\<lparr>lastQuery := sql, prepared := False, lastError := err,
                    pending := [], current := None\<rparr>))"

text \<open>
  \<open>QSqlQuery::exec()\<close>: the statement goes to the engine with the bound values. The
  call clears the last error and sets it again when it fails; a query whose statement
  did not compile fails without reaching the engine. After a success the query stands
  before the first row.
\<close>

definition query_exec :: "'e driver \<Rightarrow> QSqlQuery \<Rightarrow> 'e world \<Rightarrow> bool \<times> QSqlQuery \<times> 'e world" where
  "query_exec drv q w =
     (let w1 = w\<lparr>submitted := submitted w @ [lastQuery q]\<rparr> in
      if \<not> prepared q then
        (False,
         q\<lparr>lastError := Error (fst (drv_no_query drv)) (snd (drv_no_query drv)),
           pending := [], current := None\<rparr>, w1)
      else
        (case drv_exec drv (lastQuery q) (boundValues q) (engine w) of
           (Inl (t, msg), e') \<Rightarrow>
             (False, q\<lparr>lastError := Error t msg, pending := [], current := None\<rparr>,
              w1\<lparr>engine := e'\<rparr>)
         | (Inr rows, e') \<Rightarrow>
             (True, q\<lparr>lastError := NoError, pending := rows, current := None\<rparr>,
              w1\<lparr>engine := e'\<rparr>)))"

text \<open>\<open>QSqlQuery::next()\<close> in forward-only mode.\<close>

definition query_next :: "QSqlQuery \<Rightarrow> bool \<times> QSqlQuery" where
  "query_next q =
     (case pending q of
        [] \<Rightarrow> (False, q\<lparr>current := None\<rparr>)
      | r # rs \<Rightarrow> (True, q\<lparr>current := Some r, pending := rs\<rparr>))"

definition isValid :: "QSqlQuery \<Rightarrow> bool" where
  "isValid q = (current q \<noteq> None)"

text \<open>
  \<open>QSqlQuery::value(index)\<close>: the column of the current row; a null variant when the
  query stands on no row or the row has no such column.
\<close>

definition query_value :: "QSqlQuery \<Rightarrow> int \<Rightarrow> QVariant" where
  "query_value q i =
     (case current q of
        None \<Rightarrow> QNull
      | Some row \<Rightarrow> if 0 \<le> i \<and> nat i < length row then row ! nat i else QNull)"

text \<open>
  \<open>QSqlQuery::bindValue(pos, val)\<close>: the vector of values grows to hold position
  \<open>pos\<close>, new places hold null variants. Qt asserts that \<open>pos\<close> is not negative.
\<close>

definition bindValue :: "int \<Rightarrow> QVariant \<Rightarrow> QSqlQuery \<Rightarrow> QSqlQuery option" where
  "bindValue pos val q =
     (if pos < 0 then None
      else
        (let vs = boundValues q;
             vs' = (if length vs \<le> nat pos then vs @ replicate (nat pos + 1 - length vs) QNull else vs)
         in Some (q\<lparr>boundValues := vs'[nat pos := val]\<rparr>)))"

subsection \<open>checkQueryError, checkDatabaseError\<close>

definition checkQueryError :: "QSqlQuery \<Rightarrow> failure + unit" where
  "checkQueryError query =
     (case lastError query of
        NoError \<Rightarrow> Inr ()
      | Error t msg \<Rightarrow> Inl (Exception (error_code t) msg))"

definition checkDatabaseError :: "QSqlDatabase \<Rightarrow> failure + unit" where
  "checkDatabaseError db =
     (case db_lastError db of
        NoError \<Rightarrow> Inr ()
      | Error t msg \<Rightarrow> Inl (Exception (error_code t) msg))"

subsection \<open>mbgl::util::toString\<close>

text \<open>The decimal text of an integer, as \<open>std::to_string\<close> writes it.\<close>

fun digits :: "nat \<Rightarrow> string" where
  "digits n =
     (if n < 10 then [''0123456789'' ! n]
      else digits (n div 10) @ [''0123456789'' ! (n mod 10)])"

declare digits.simps [simp del]

definition toString :: "int \<Rightarrow> string" where
  "toString i = (if i < 0 then CHR ''-'' # digits (nat (- i)) else digits (nat i))"

subsection \<open>DatabaseImpl\<close>

text \<open>
  The enumerators \<open>OpenFlag::ReadOnly\<close> and \<open>OpenFlag::SharedCache\<close> are declared
  in sqlite3.hpp; their bit masks are a parameter.
\<close>

record OpenFlag =
  ReadOnly :: "32 word"
  SharedCache :: "32 word"

text \<open>Lines 42 to 50 of the constructor: the connect options for a set of flags.\<close>

definition flag_options :: "OpenFlag \<Rightarrow> string \<Rightarrow> 32 word \<Rightarrow> string" where
  "flag_options fl connectOptions0 flags =
     (let connectOptions1 =
            (if flags AND ReadOnly fl \<noteq> 0 then
               (if connectOptions0 \<noteq> [] then connectOptions0 @ '';'' else connectOptions0)
                 @ ''QSQLITE_OPEN_READONLY''
             else connectOptions0);
          connectOptions2 =
            (if flags AND SharedCache fl \<noteq> 0 then
               (if connectOptions1 \<noteq> [] then connectOptions1 @ '';'' else connectOptions1)
                 @ ''QSQLITE_ENABLE_SHARED_CACHE''
             else connectOptions1)
      in connectOptions2)"

text \<open>
  The constructor takes the value of the static counter \<open>count\<close> and returns the
  incremented one. When \<open>open\<close> fails the error of the handle is thrown and no object
  exists.
\<close>

definition DatabaseImpl ::
  "OpenFlag \<Rightarrow> 'e driver \<Rightarrow> 32 word \<Rightarrow> string \<Rightarrow> 32 word \<Rightarrow> 'e world
     \<Rightarrow> 32 word \<times> 'e world \<times> (failure + QSqlDatabase)" where
  "DatabaseImpl fl drv count filename flags w =
     (let db0 = addDatabase (toString (uint count));
          db1 = db0\<lparr>connectOptions := flag_options fl (connectOptions db0) flags\<rparr>;
          db2 = db1\<lparr>databaseName := filename\<rparr>
      in case db_open drv db2 w of
           (True, db3, w') \<Rightarrow> (count + 1, w', Inr db3)
         | (False, db3, w') \<Rightarrow>
             (case checkDatabaseError db3 of
                Inl e \<Rightarrow> (count + 1, w', Inl e)
              | Inr u \<Rightarrow> (count + 1, w', Inr db3)))"

subsection \<open>Database\<close>

definition setBusyTimeout ::
  "'e driver \<Rightarrow> QSqlDatabase \<Rightarrow> int \<Rightarrow> 'e world \<Rightarrow> QSqlDatabase \<times> 'e world \<times> (failure + unit)" where
  "setBusyTimeout drv db timeout w =
     (let timeoutStr = toString timeout;
          connectOptions0 = connectOptions db;
          connectOptions1 =
            (if connectOptions0 = [] then
               (if connectOptions0 \<noteq> [] then connectOptions0 @ '';'' else connectOptions0)
                 @ ''QSQLITE_BUSY_TIMEOUT='' @ timeoutStr
             else connectOptions0);
          (db1, w1) = (if isOpen db then db_close drv db w else (db, w));
          db2 = db1\<lparr>connectOptions := connectOptions1\<rparr>
      in case db_open drv db2 w1 of
           (True, db3, w2) \<Rightarrow> (db3, w2, Inr ())
         | (False, db3, w2) \<Rightarrow> (db3, w2, checkDatabaseError db3))"

text \<open>
  \<open>Database::exec\<close>. The text is a sequence of characters here and in Qt (the
  conversion from \<open>std::string\<close> to \<open>QString\<close> is not modelled).
  \<open>QString::split(';')\<close> keeps empty parts: a text with n separators has n + 1
  parts, and the empty text has one part, the empty one.
\<close>

fun split :: "char \<Rightarrow> string \<Rightarrow> string list" where
  "split sep [] = [Nil]"
| "split sep (c # cs) =
     (if c = sep then [] # split sep cs
      else (c # hd (split sep cs)) # tl (split sep cs))"

text \<open>
  The body of the loop in \<open>Database::exec\<close>, for the statements that are left after
  \<open>removeAll\<close>: a fresh query for each, the result of \<open>prepare\<close> is not looked at, and
  a failed \<open>exec\<close> throws the error of the query, which ends the loop.
\<close>

fun exec_statements ::
  "'e driver \<Rightarrow> QSqlDatabase \<Rightarrow> string list \<Rightarrow> 'e world \<Rightarrow> 'e world \<times> (failure + unit)" where
  "exec_statements drv db [] w = (w, Inr ())"
| "exec_statements drv db (statement0 # statements) w =
     (let statement = statement0 @ '';'';
          query0 = setForwardOnly True new_query;
          query1 = snd (query_prepare drv statement query0 w)
      in case query_exec drv query1 w of
           (True, query2, w') \<Rightarrow> exec_statements drv db statements w'
         | (False, query2, w') \<Rightarrow>
             (case checkQueryError query2 of
                Inl e \<Rightarrow> (w', Inl e)
              | Inr u \<Rightarrow> exec_statements drv db statements w'))"

definition exec :: "'e driver \<Rightarrow> QSqlDatabase \<Rightarrow> string \<Rightarrow> 'e world \<Rightarrow> 'e world \<times> (failure + unit)" where
  "exec drv db sql w =
     exec_statements drv db (removeAll [CHR 0x0A] (split CHR '';'' sql)) w"

subsection \<open>Transaction\<close>

datatype Mode = Deferred | Immediate | Exclusive

text \<open>
  The object holds a reference to its \<open>Database\<close> (passed to each operation here) and
  the flag \<open>needRollback\<close>.
\<close>

record Transaction =
  needRollback :: bool

fun begin_statement :: "Mode \<Rightarrow> string" where
  "begin_statement Deferred = ''BEGIN DEFERRED TRANSACTION''"
| "begin_statement Immediate = ''BEGIN IMMEDIATE TRANSACTION''"
| "begin_statement Exclusive = ''BEGIN EXCLUSIVE TRANSACTION''"

text \<open>
  Modelled from the spec: the initial value of \<open>needRollback\<close>, which the class
  declaration in sqlite3.hpp gives. A new transaction is Active: the flag is set, and
  only \<open>commit()\<close> and \<open>rollback()\<close> clear it. The rest is the constructor: when
  \<open>exec\<close> throws, no object exists and no destructor runs.
\<close>

definition Transaction_new ::
  "'e driver \<Rightarrow> QSqlDatabase \<Rightarrow> Mode \<Rightarrow> 'e world \<Rightarrow> 'e world \<times> (failure + Transaction)" where
  "Transaction_new drv db mode w =
     (case exec drv db (begin_statement mode) w of
        (w', Inl e) \<Rightarrow> (w', Inl e)
      | (w', Inr u) \<Rightarrow> (w', Inr \<lparr>needRollback = True\<rparr>))"

definition commit ::
  "'e driver \<Rightarrow> QSqlDatabase \<Rightarrow> Transaction \<Rightarrow> 'e world \<Rightarrow> Transaction \<times> 'e world \<times> (failure + unit)" where
  "commit drv db t w =
     (let t' = t\<lparr>needRollback := False\<rparr>
      in case exec drv db ''COMMIT TRANSACTION'' w of (w', r) \<Rightarrow> (t', w', r))"

definition rollback ::
  "'e driver \<Rightarrow> QSqlDatabase \<Rightarrow> Transaction \<Rightarrow> 'e world \<Rightarrow> Transaction \<times> 'e world \<times> (failure + unit)" where
  "rollback drv db t w =
     (let t' = t\<lparr>needRollback := False\<rparr>
      in case exec drv db ''ROLLBACK TRANSACTION'' w of (w', r) \<Rightarrow> (t', w', r))"

text \<open>The destructor, with its \<open>try\<close> and \<open>catch (...)\<close>.\<close>

definition Transaction_delete ::
  "'e driver \<Rightarrow> QSqlDatabase \<Rightarrow> Transaction \<Rightarrow> 'e world \<Rightarrow> Transaction \<times> 'e world \<times> (failure + unit)" where
  "Transaction_delete drv db t w =
     (if needRollback t then
        (case rollback drv db t w of (t', w', r) \<Rightarrow> (t', w', catch_all r))
      else (t, w, Inr ()))"

text \<open>
  A scope that holds a \<open>Transaction\<close>: the constructor, the caller's calls of
  \<open>commit()\<close> and \<open>rollback()\<close> in their order, and the destructor when the scope is
  left, which is at once when a call throws. The result is the exception that leaves the
  scope, if any.
\<close>

datatype call = Commit | Rollback

fun apply_call ::
  "'e driver \<Rightarrow> QSqlDatabase \<Rightarrow> call \<Rightarrow> Transaction \<Rightarrow> 'e world \<Rightarrow> Transaction \<times> 'e world \<times> (failure + unit)" where
  "apply_call drv db Commit t w = commit drv db t w"
| "apply_call drv db Rollback t w = rollback drv db t w"

fun apply_calls ::
  "'e driver \<Rightarrow> QSqlDatabase \<Rightarrow> call list \<Rightarrow> Transaction \<Rightarrow> 'e world \<Rightarrow> Transaction \<times> 'e world \<times> (failure + unit)" where
  "apply_calls drv db [] t w = (t, w, Inr ())"
| "apply_calls drv db (c # cs) t w =
     (case apply_call drv db c t w of
        (t', w', Inl e) \<Rightarrow> (t', w', Inl e)
      | (t', w', Inr u) \<Rightarrow> apply_calls drv db cs t' w')"

definition scope ::
  "'e driver \<Rightarrow> QSqlDatabase \<Rightarrow> Mode \<Rightarrow> call list \<Rightarrow> 'e world \<Rightarrow> 'e world \<times> (failure + unit)" where
  "scope drv db mode calls w =
     (case Transaction_new drv db mode w of
        (w0, Inl e) \<Rightarrow> (w0, Inl e)
      | (w0, Inr t) \<Rightarrow>
          (case apply_calls drv db calls t w0 of
             (t1, w1, r1) \<Rightarrow>
               (case Transaction_delete drv db t1 w1 of
                  (t2, w2, Inl e) \<Rightarrow> (w2, Inl e)
                | (t2, w2, Inr u) \<Rightarrow> (w2, r1))))"

subsection \<open>Time points\<close>

text \<open>
  Modelled from the spec: \<open>mbgl::Timestamp\<close>, which mbgl/util/chrono.hpp declares, is
  a time point of \<open>std::chrono::system_clock\<close> at second precision: a signed 64-bit
  count of seconds since the epoch. \<open>std::time_t\<close> is a signed 64-bit count of
  seconds as well.

  A time point of \<open>system_clock\<close> itself is a signed 64-bit count of the clock's
  ticks; the number \<open>period\<close> of ticks in a second belongs to the standard library
  and is a parameter (1000000000 where the clock counts nanoseconds). \<open>std::chrono\<close>
  converts to a finer unit by multiplying the count and to a coarser one by dividing
  it as C++ divides integers, towards zero, both in 64 bits. Where the product does not
  fit, C++ leaves the result undefined; the model wraps around, as the compiled code
  does.
\<close>

type_synonym int64 = "64 word"

definition int64_div :: "int64 \<Rightarrow> int64 \<Rightarrow> int64" where
  "int64_div a b = word_of_int (sint a sdiv sint b)"

text \<open>
  The conversion of a \<open>Timestamp\<close> to \<open>system_clock::time_point\<close>, which the call
  \<open>to_time_t(value)\<close> makes of its argument.
\<close>

definition to_system_clock :: "int64 \<Rightarrow> int64 \<Rightarrow> int64" where
  "to_system_clock period v = v * period"

definition to_time_t :: "int64 \<Rightarrow> int64 \<Rightarrow> int64" where
  "to_time_t period tp = int64_div tp period"

definition from_time_t :: "int64 \<Rightarrow> int64 \<Rightarrow> int64" where
  "from_time_t period t = t * period"

definition time_point_cast_seconds :: "int64 \<Rightarrow> int64 \<Rightarrow> int64" where
  "time_point_cast_seconds period tp = int64_div tp period"

subsection \<open>Statement\<close>

text \<open>
  A \<open>Statement\<close> owns one \<open>QSqlQuery\<close>. The constructor of \<open>StatementImpl\<close> throws
  the error of a statement that does not compile.
\<close>

definition Statement_new :: "'e driver \<Rightarrow> QSqlDatabase \<Rightarrow> string \<Rightarrow> 'e world \<Rightarrow> failure + QSqlQuery" where
  "Statement_new drv db sql w =
     (let query0 = setForwardOnly True new_query
      in case query_prepare drv sql query0 w of
           (True, query1) \<Rightarrow> Inr query1
         | (False, query1) \<Rightarrow>
             (case checkQueryError query1 of Inl e \<Rightarrow> Inl e | Inr u \<Rightarrow> Inr query1))"

text \<open>
  The template \<open>bind<T>(offset, value)\<close>, after \<open>QVariant::fromValue<T>(value)\<close>: the
  value goes to position \<open>offset - 1\<close>, then the error of the query is checked.
\<close>

definition bind_value :: "int \<Rightarrow> QVariant \<Rightarrow> QSqlQuery \<Rightarrow> QSqlQuery \<times> (failure + unit)" where
  "bind_value offset v q =
     (case bindValue (offset - 1) v q of
        None \<Rightarrow> (q, Inl assertion_failed)
      | Some q' \<Rightarrow> (q', checkQueryError q'))"

definition bind_int64 :: "int \<Rightarrow> int \<Rightarrow> QSqlQuery \<Rightarrow> QSqlQuery \<times> (failure + unit)" where
  "bind_int64 offset n q = bind_value offset (QLongLong n) q"

definition bind_double :: "int \<Rightarrow> double \<Rightarrow> QSqlQuery \<Rightarrow> QSqlQuery \<times> (failure + unit)" where
  "bind_double offset d q = bind_value offset (QDouble d) q"

definition bind_bool :: "int \<Rightarrow> bool \<Rightarrow> QSqlQuery \<Rightarrow> QSqlQuery \<times> (failure + unit)" where
  "bind_bool offset b q = bind_value offset (QBool b) q"

definition bind_nullptr :: "int \<Rightarrow> QSqlQuery \<Rightarrow> QSqlQuery \<times> (failure + unit)" where
  "bind_nullptr offset q = bind_value offset QNull q"

definition bind_Timestamp :: "int64 \<Rightarrow> int \<Rightarrow> int64 \<Rightarrow> QSqlQuery \<Rightarrow> QSqlQuery \<times> (failure + unit)" where
  "bind_Timestamp period offset v q =
     bind_int64 offset (sint (to_time_t period (to_system_clock period v))) q"

text \<open>
  \<open>bind(offset, value, length, retain)\<close>: \<open>value\<close> is the memory behind the pointer,
  \<open>length\<close> a \<open>std::size_t\<close>, compared with the largest \<open>int\<close>. \<open>retain\<close> chooses
  between a copy of the bytes and a reference to them: the bytes are the same.
\<close>

definition bind_bytes ::
  "int \<Rightarrow> string \<Rightarrow> nat \<Rightarrow> bool \<Rightarrow> QSqlQuery \<Rightarrow> QSqlQuery \<times> (failure + unit)" where
  "bind_bytes offset v len retain q =
     (if len > 2147483647 then (q, Inl (range_error ''value too long''))
      else bind_value offset
             (if retain then QBytes (Some (take len v)) else QBytes (Some (take len v))) q)"

definition bind_string :: "int \<Rightarrow> string \<Rightarrow> bool \<Rightarrow> QSqlQuery \<Rightarrow> QSqlQuery \<times> (failure + unit)" where
  "bind_string offset v retain q = bind_bytes offset v (length v) retain q"

text \<open>
  The two specialisations for \<open>optional\<close>. \<open>bind(offset, *value)\<close> on a string is the
  overload for \<open>const std::string&\<close>, with the \<open>retain\<close> that its declaration gives
  by default (a parameter here).
\<close>

definition bind_optional_string ::
  "bool \<Rightarrow> int \<Rightarrow> string option \<Rightarrow> QSqlQuery \<Rightarrow> QSqlQuery \<times> (failure + unit)" where
  "bind_optional_string retain offset v q =
     (case v of Some s \<Rightarrow> bind_string offset s retain q | None \<Rightarrow> bind_nullptr offset q)"

definition bind_optional_Timestamp ::
  "int64 \<Rightarrow> int \<Rightarrow> int64 option \<Rightarrow> QSqlQuery \<Rightarrow> QSqlQuery \<times> (failure + unit)" where
  "bind_optional_Timestamp period offset v q =
     (case v of Some t \<Rightarrow> bind_Timestamp period offset t q | None \<Rightarrow> bind_nullptr offset q)"

definition run :: "'e driver \<Rightarrow> QSqlQuery \<Rightarrow> 'e world \<Rightarrow> QSqlQuery \<times> 'e world \<times> (failure + bool)" where
  "run drv q w =
     (let q0 = setForwardOnly True q
      in case query_exec drv q0 w of
           (True, q1, w') \<Rightarrow> (case query_next q1 of (b, q2) \<Rightarrow> (q2, w', Inr b))
         | (False, q1, w') \<Rightarrow>
             (case checkQueryError q1 of
                Inl e \<Rightarrow> (q1, w', Inl e)
              | Inr u \<Rightarrow> (case query_next q1 of (b, q2) \<Rightarrow> (q2, w', Inr b))))"

text \<open>
  The extractions. Each starts with \<open>assert(impl->query.isValid())\<close> (the model is
  of a build in which assertions are compiled in), reads the column and checks the error
  of the query before it converts.
\<close>

definition get_int64 :: "conversions \<Rightarrow> QSqlQuery \<Rightarrow> int \<Rightarrow> failure + int" where
  "get_int64 cv q offset =
     (if \<not> isValid q then Inl assertion_failed
      else let v = query_value q offset
           in case checkQueryError q of
                Inl e \<Rightarrow> Inl e
              | Inr u \<Rightarrow> Inr (value_int64 cv v))"

definition get_double :: "conversions \<Rightarrow> QSqlQuery \<Rightarrow> int \<Rightarrow> failure + double" where
  "get_double cv q offset =
     (if \<not> isValid q then Inl assertion_failed
      else let v = query_value q offset
           in case checkQueryError q of
                Inl e \<Rightarrow> Inl e
              | Inr u \<Rightarrow> Inr (value_double cv v))"

definition get_Timestamp :: "int64 \<Rightarrow> conversions \<Rightarrow> QSqlQuery \<Rightarrow> int \<Rightarrow> failure + int64" where
  "get_Timestamp period cv q offset =
     (if \<not> isValid q then Inl assertion_failed
      else let v = query_value q offset
           in case checkQueryError q of
                Inl e \<Rightarrow> Inl e
              | Inr u \<Rightarrow>
                  Inr (time_point_cast_seconds period
                         (from_time_t period (word_of_int (value_int64 cv v)))))"

definition get_optional_int64 :: "conversions \<Rightarrow> QSqlQuery \<Rightarrow> int \<Rightarrow> failure + int option" where
  "get_optional_int64 cv q offset =
     (if \<not> isValid q then Inl assertion_failed
      else let v = query_value q offset
           in case checkQueryError q of
                Inl e \<Rightarrow> Inl e
              | Inr u \<Rightarrow> if isNull v then Inr None else Inr (Some (value_int64 cv v)))"

definition get_optional_double :: "conversions \<Rightarrow> QSqlQuery \<Rightarrow> int \<Rightarrow> failure + double option" where
  "get_optional_double cv q offset =
     (if \<not> isValid q then Inl assertion_failed
      else let v = query_value q offset
           in case checkQueryError q of
                Inl e \<Rightarrow> Inl e
              | Inr u \<Rightarrow> if isNull v then Inr None else Inr (Some (value_double cv v)))"

definition get_string :: "conversions \<Rightarrow> QSqlQuery \<Rightarrow> int \<Rightarrow> failure + string" where
  "get_string cv q offset =
     (if \<not> isValid q then Inl assertion_failed
      else let v = toByteArray cv (query_value q offset)
           in case checkQueryError q of
                Inl e \<Rightarrow> Inl e
              | Inr u \<Rightarrow> Inr (constData v))"

definition get_optional_string :: "conversions \<Rightarrow> QSqlQuery \<Rightarrow> int \<Rightarrow> failure + string option" where
  "get_optional_string cv q offset =
     (if \<not> isValid q then Inl assertion_failed
      else let v = toByteArray cv (query_value q offset)
           in case checkQueryError q of
                Inl e \<Rightarrow> Inl e
              | Inr u \<Rightarrow> if v = None then Inr None else Inr (Some (constData v)))"

definition get_optional_Timestamp ::
  "int64 \<Rightarrow> conversions \<Rightarrow> QSqlQuery \<Rightarrow> int \<Rightarrow> failure + int64 option" where
  "get_optional_Timestamp period cv q offset =
     (if \<not> isValid q then Inl assertion_failed
      else let v = query_value q offset
           in case checkQueryError q of
                Inl e \<Rightarrow> Inl e
              | Inr u \<Rightarrow>
                  if isNull v then Inr None
                  else Inr (Some (time_point_cast_seconds period
                                    (from_time_t period (word_of_int (value_int64 cv v))))))"

definition reset :: "QSqlQuery \<Rightarrow> QSqlQuery" where
  "reset q = q"

definition clearBindings :: "QSqlQuery \<Rightarrow> QSqlQuery" where
  "clearBindings q = q"

subsection \<open>Notions used to state the properties\<close>





subsection \<open>Sample engines and flags for the examples\<close>

text \<open>
  An engine that knows the statements of a list: it compiles and runs those, answering
  one row that holds the bound values (no row when there are none), and rejects every
  other text. The statements of a second list compile but find the database locked
  when they are executed. The engine opens every file but the one without a name.
\<close>

definition echo_driver :: "string list \<Rightarrow> string list \<Rightarrow> unit driver" where
  "echo_driver known locked =
     \<lparr>drv_open = (\<lambda>name options e.
        if name = [] then (Some (ConnectionError, ''unable to open database file''), e)
        else (None, e)),
      drv_close = (\<lambda>e. (None, e)),
      drv_prepare = (\<lambda>sql e.
        if sql \<in> set known \<union> set locked then None
        else Some (Error StatementError ''syntax error'')),
      drv_exec = (\<lambda>sql vals e.
        if sql \<in> set locked then (Inl (StatementError, ''database is locked''), e)
        else if sql \<in> set known then (Inr (if vals = [] then [] else [vals]), e)
        else (Inl (StatementError, ''syntax error''), e)),
      drv_no_query = (ConnectionError, ''No query Unable to fetch row'')\<rparr>"

text \<open>
  The same engine with the columns as SQLite and Qt hand them over: a byte array of
  length zero, stored as a BLOB of length zero, comes back as a variant that holds a
  null byte array.
\<close>

definition as_column :: "QVariant \<Rightarrow> QVariant" where
  "as_column v = (if v = QBytes (Some []) then QBytes None else v)"

definition blob_driver :: "string list \<Rightarrow> unit driver" where
  "blob_driver known =
     (echo_driver known [])\<lparr>drv_exec := (\<lambda>sql vals e.
        if sql \<in> set known then (Inr (if vals = [] then [] else [map as_column vals]), e)
        else (Inl (StatementError, ''syntax error''), e))\<rparr>"

text \<open>Coercions for the examples: everything becomes zero or empty.\<close>

definition plain_conversions :: conversions where
  "plain_conversions = \<lparr>toLongLong = (\<lambda>v. 0), toDouble = (\<lambda>v. 0), toBytes = (\<lambda>v. [])\<rparr>"

definition world0 :: "unit world" where
  "world0 = \<lparr>engine = (), submitted = []\<rparr>"

text \<open>
  The statement that \<open>Statement_new\<close> builds for the text \<open>SELECT ?1, ?2\<close> on an
  engine that knows it: with the sample engine, running it answers the bound values.
\<close>

definition select_two :: QSqlQuery where
  "select_two =
     \<lparr>lastQuery = ''SELECT ?1, ?2'', prepared = True, forwardOnly = True, boundValues = [],
      lastError = NoError, pending = [], current = None\<rparr>"

text \<open>The like for the text \<open>SELECT ?1, ?2, ?3\<close>.\<close>

definition select_three :: QSqlQuery where
  "select_three =
     \<lparr>lastQuery = ''SELECT ?1, ?2, ?3'', prepared = True, forwardOnly = True, boundValues = [],
      lastError = NoError, pending = [], current = None\<rparr>"

text \<open>Masks as SQLite numbers its own open flags.\<close>

definition sqlite_flags :: OpenFlag where
  "sqlite_flags = \<lparr>ReadOnly = 0x1, SharedCache = 0x20000\<rparr>"

section \<open>Properties\<close>

subsection \<open>Opening a connection\<close>

lemma and_or_absorb:
  "(x AND (a OR b)) AND a = x AND (a :: 32 word)"
  "(x AND (a OR b)) AND b = x AND (b :: 32 word)"
  by (simp_all add: bit_eq_iff bit_and_iff bit_or_iff) blast+

lemma flag_options_masked:
  "flag_options fl opts (flags AND (ReadOnly fl OR SharedCache fl)) = flag_options fl opts flags"
  by (simp add: flag_options_def and_or_absorb)

lemma flag_options_empty:
  "flag_options fl [] flags =
     (if flags AND ReadOnly fl \<noteq> 0
      then (if flags AND SharedCache fl \<noteq> 0
            then ''QSQLITE_OPEN_READONLY;QSQLITE_ENABLE_SHARED_CACHE''
            else ''QSQLITE_OPEN_READONLY'')
      else (if flags AND SharedCache fl \<noteq> 0 then ''QSQLITE_ENABLE_SHARED_CACHE'' else []))"
  by (simp add: flag_options_def)

lemma DatabaseImpl_refused:
  assumes "drv_open drv filename (flag_options fl [] flags) (engine w) = (Some (t, msg), e')"
  shows "DatabaseImpl fl drv count filename flags w =
           (count + 1, w\<lparr>engine := e'\<rparr>, Inl (Exception (error_code t) msg))"
  using assms by (simp add: DatabaseImpl_def addDatabase_def db_open_def checkDatabaseError_def)

text \<open>
  Claim C8, as the code has it. The constructor looks at two bits of \<open>flags\<close> only.
  A set \<open>ReadOnly\<close> bit adds the token \<open>QSQLITE_OPEN_READONLY\<close> and a set
  \<open>SharedCache\<close> bit the token \<open>QSQLITE_ENABLE_SHARED_CACHE\<close>, in this order and
  with a semicolon between them. Every other bit is without effect: the constructor
  does the same with \<open>flags\<close> as with \<open>flags\<close> masked to the two bits, so nothing
  of the other bits reaches the engine. When the engine refuses to open the file, the
  constructor throws the engine's error as an \<open>Exception\<close>.
\<close>

theorem open_flags_translated:
  "DatabaseImpl fl drv count filename flags w =
     DatabaseImpl fl drv count filename (flags AND (ReadOnly fl OR SharedCache fl)) w
   \<and> flag_options fl [] flags =
       (if flags AND ReadOnly fl \<noteq> 0
        then (if flags AND SharedCache fl \<noteq> 0
              then ''QSQLITE_OPEN_READONLY;QSQLITE_ENABLE_SHARED_CACHE''
              else ''QSQLITE_OPEN_READONLY'')
        else (if flags AND SharedCache fl \<noteq> 0 then ''QSQLITE_ENABLE_SHARED_CACHE'' else []))
   \<and> (\<forall>t msg e'.
         drv_open drv filename (flag_options fl [] flags) (engine w) = (Some (t, msg), e') \<longrightarrow>
         DatabaseImpl fl drv count filename flags w =
           (count + 1, w\<lparr>engine := e'\<rparr>, Inl (Exception (error_code t) msg)))"
proof (intro conjI allI impI)
  show "DatabaseImpl fl drv count filename flags w =
     DatabaseImpl fl drv count filename (flags AND (ReadOnly fl OR SharedCache fl)) w"
    by (simp add: DatabaseImpl_def flag_options_masked)
qed (simp_all add: flag_options_empty DatabaseImpl_refused)

text \<open>
  An instance: the flags \<open>0x20005\<close> (both known bits and the bit 4) on a file the
  sample engine refuses.
\<close>

theorem open_flags_translated_witness:
  "drv_open (echo_driver [] []) [] (flag_options sqlite_flags [] 0x20005) (engine world0)
     = (Some (ConnectionError, ''unable to open database file''), ())
   \<and> DatabaseImpl sqlite_flags (echo_driver [] []) 7 [] 0x20005 world0
     = (8, world0, Inl (Exception 1 ''unable to open database file''))
   \<and> DatabaseImpl sqlite_flags (echo_driver [] []) 7 [] 0x20005 world0
     = DatabaseImpl sqlite_flags (echo_driver [] []) 7 [] 0x20001 world0
   \<and> flag_options sqlite_flags [] 0x20005 = ''QSQLITE_OPEN_READONLY;QSQLITE_ENABLE_SHARED_CACHE''"
proof -
  have refusal: "drv_open (echo_driver [] []) [] (flag_options sqlite_flags [] 0x20005) (engine world0)
     = (Some (ConnectionError, ''unable to open database file''), ())"
    by (simp add: echo_driver_def world0_def)
  have mask: "(0x20005 :: 32 word) AND (ReadOnly sqlite_flags OR SharedCache sqlite_flags) = 0x20001"
    by (simp add: sqlite_flags_def)
  note inst = open_flags_translated [of sqlite_flags "echo_driver [] []" 7 "[]" "0x20005" world0]
  from inst refusal have thrown: "DatabaseImpl sqlite_flags (echo_driver [] []) 7 [] 0x20005 world0
     = (7 + 1, world0\<lparr>engine := ()\<rparr>,
        Inl (Exception (error_code ConnectionError) ''unable to open database file''))"
    by blast
  from inst have same: "DatabaseImpl sqlite_flags (echo_driver [] []) 7 [] 0x20005 world0
     = DatabaseImpl sqlite_flags (echo_driver [] []) 7 [] 0x20001 world0"
    unfolding mask by blast
  from inst have opts:
    "flag_options sqlite_flags [] 0x20005 = ''QSQLITE_OPEN_READONLY;QSQLITE_ENABLE_SHARED_CACHE''"
    by (simp add: sqlite_flags_def)
  from thrown have thrown': "DatabaseImpl sqlite_flags (echo_driver [] []) 7 [] 0x20005 world0
     = (8, world0, Inl (Exception 1 ''unable to open database file''))"
    by (simp add: world0_def)
  show ?thesis using refusal thrown' same opts by blast
qed

text \<open>
  Claim C8 as it is worded does not hold: the flags \<open>6\<close> (two bits outside the known
  set) open the connection with empty connect options, exactly as the flags \<open>0\<close> do.
  The two bits are dropped, not handed to the engine.
\<close>

theorem extra_flag_bits_dropped:
  "DatabaseImpl sqlite_flags (echo_driver [] []) 0 ''cache.db'' 6 world0
     = (1, world0,
        Inr \<lparr>connectionName = ''0'', connectOptions = [], databaseName = ''cache.db'',
             isOpen = True, db_lastError = NoError\<rparr>)
   \<and> DatabaseImpl sqlite_flags (echo_driver [] []) 0 ''cache.db'' 6 world0
     = DatabaseImpl sqlite_flags (echo_driver [] []) 0 ''cache.db'' 0 world0"
  by (simp add: DatabaseImpl_def addDatabase_def db_open_def flag_options_def
      echo_driver_def sqlite_flags_def world0_def toString_def digits.simps)

subsection \<open>The busy timeout\<close>

lemma setBusyTimeout_keeps_options:
  "connectOptions db \<noteq> [] \<Longrightarrow>
   connectOptions (fst (setBusyTimeout drv db timeout w)) = connectOptions db"
  by (auto simp: setBusyTimeout_def db_open_def db_close_def Let_def
      split: prod.splits option.splits bool.splits)

text \<open>
  Claim C1 at a connection opened with the flag \<open>ReadOnly\<close>: its connect options are
  \<open>QSQLITE_OPEN_READONLY\<close>, and \<open>setBusyTimeout\<close> with 5000 milliseconds closes and
  reopens it with the same options: no \<open>QSQLITE_BUSY_TIMEOUT\<close> is set. The outer test
  of the function lets the option through only when there are no options yet, as for a
  connection opened without flags (third equation); the inner test for a separating
  semicolon can then never succeed.
\<close>

theorem setBusyTimeout_after_ReadOnly:
  "DatabaseImpl sqlite_flags (echo_driver [] []) 0 ''cache.db'' 1 world0
     = (1, world0,
        Inr \<lparr>connectionName = ''0'', connectOptions = ''QSQLITE_OPEN_READONLY'',
             databaseName = ''cache.db'', isOpen = True, db_lastError = NoError\<rparr>)
   \<and> setBusyTimeout (echo_driver [] [])
        \<lparr>connectionName = ''0'', connectOptions = ''QSQLITE_OPEN_READONLY'',
         databaseName = ''cache.db'', isOpen = True, db_lastError = NoError\<rparr> 5000 world0
     = (\<lparr>connectionName = ''0'', connectOptions = ''QSQLITE_OPEN_READONLY'',
         databaseName = ''cache.db'', isOpen = True, db_lastError = NoError\<rparr>, world0, Inr ())
   \<and> setBusyTimeout (echo_driver [] [])
        \<lparr>connectionName = ''0'', connectOptions = [],
         databaseName = ''cache.db'', isOpen = True, db_lastError = NoError\<rparr> 5000 world0
     = (\<lparr>connectionName = ''0'', connectOptions = ''QSQLITE_BUSY_TIMEOUT=5000'',
         databaseName = ''cache.db'', isOpen = True, db_lastError = NoError\<rparr>, world0, Inr ())"
  by (simp add: DatabaseImpl_def addDatabase_def db_open_def db_close_def flag_options_def
      setBusyTimeout_def echo_driver_def sqlite_flags_def world0_def toString_def digits.simps)

subsection \<open>Running a text of statements\<close>

lemma split_no_separator: "sep \<notin> set s \<Longrightarrow> split sep s = [s]"
  by (induction s) auto








subsection \<open>Transactions\<close>

lemma exec_statements_single:
  "\<exists>w' r. exec_statements drv db [s] w = (w', r)
     \<and> submitted w' = submitted w @ [s @ '';''] \<and> catch_all r = Inr ()"
  by (auto simp: query_prepare_def query_exec_def new_query_def setForwardOnly_def Let_def
      checkQueryError_def split: option.splits prod.splits sum.splits QSqlError.splits)

lemma exec_one_statement:
  "CHR '';'' \<notin> set s \<Longrightarrow> s \<noteq> [CHR 0x0A] \<Longrightarrow> exec drv db s w = exec_statements drv db [s] w"
  by (simp add: exec_def split_no_separator)


lemma exec_rollback: "exec drv db ''ROLLBACK TRANSACTION'' w = exec_statements drv db [''ROLLBACK TRANSACTION''] w"
  by (rule exec_one_statement) simp_all


lemma submitted_exec_rollback:
  "submitted (fst (exec drv db ''ROLLBACK TRANSACTION'' w)) = submitted w @ [''ROLLBACK TRANSACTION;'']"
  using exec_statements_single [of drv db "''ROLLBACK TRANSACTION''" w]
  by (auto simp: exec_rollback)


lemma catch_all_exec_rollback:
  "catch_all (snd (exec drv db ''ROLLBACK TRANSACTION'' w)) = Inr ()"
  using exec_statements_single [of drv db "''ROLLBACK TRANSACTION''" w]
  by (auto simp: exec_rollback)

lemma Transaction_delete_eq:
  "Transaction_delete drv db t w =
     (if needRollback t
      then (t\<lparr>needRollback := False\<rparr>, fst (exec drv db ''ROLLBACK TRANSACTION'' w), Inr ())
      else (t, w, Inr ()))"
  using catch_all_exec_rollback [of drv db w]
  by (cases "exec drv db ''ROLLBACK TRANSACTION'' w") (simp add: Transaction_delete_def rollback_def)

lemma needRollback_apply_call: "needRollback (fst (apply_call drv db c t w)) = False"
  by (cases c) (simp_all add: commit_def rollback_def split: prod.splits)

lemma needRollback_apply_calls:
  "needRollback (fst (apply_calls drv db calls t w)) = (needRollback t \<and> calls = [])"
proof (induction calls arbitrary: t w)
  case Nil
  then show ?case by simp
next
  case (Cons c cs)
  obtain t' w' r where step: "apply_call drv db c t w = (t', w', r)"
    by (cases "apply_call drv db c t w") auto
  then have "needRollback t' = False"
    using needRollback_apply_call [of drv db c t w] by simp
  with step Cons.IH [of t' w'] show ?case
    by (cases r) simp_all
qed

lemma Transaction_new_flag:
  "case snd (Transaction_new drv db mode w) of Inl e \<Rightarrow> True | Inr t \<Rightarrow> needRollback t"
  by (simp add: Transaction_new_def split: prod.splits sum.splits)



text \<open>
  Claim C7, as the code has it. The destructor attempts the implicit rollback exactly
  when the flag \<open>needRollback\<close> is still set: it then submits the one statement
  \<open>ROLLBACK TRANSACTION;\<close>, and whatever \<open>rollback()\<close> throws is dropped, the
  destructor returns normally. With the flag cleared it does nothing. The flag is set
  in a new \<open>Transaction\<close>, and it is set after a sequence of calls of \<open>commit()\<close>
  and \<open>rollback()\<close> exactly when the sequence is empty: a call clears it before it
  runs its statement, also when the statement fails.
\<close>

theorem implicit_rollback_iff_flag_set:
  "Transaction_delete drv db t w =
     (if needRollback t
      then (t\<lparr>needRollback := False\<rparr>, fst (exec drv db ''ROLLBACK TRANSACTION'' w), Inr ())
      else (t, w, Inr ()))
   \<and> submitted (fst (exec drv db ''ROLLBACK TRANSACTION'' w)) = submitted w @ [''ROLLBACK TRANSACTION;'']
   \<and> (case snd (Transaction_new drv db mode w) of Inl e \<Rightarrow> True | Inr t0 \<Rightarrow> needRollback t0)
   \<and> needRollback (fst (apply_calls drv db calls t w)) = (needRollback t \<and> calls = [])"
  using Transaction_delete_eq submitted_exec_rollback Transaction_new_flag needRollback_apply_calls
  by blast

text \<open>
  Claim C7 as it is worded does not hold: \<open>commit()\<close> fails on a locked database
  and the exception leaves the scope; neither \<open>commit()\<close> nor \<open>rollback()\<close> has
  succeeded, yet the destructor submits no \<open>ROLLBACK TRANSACTION;\<close>.
\<close>

theorem no_implicit_rollback_after_failed_commit:
  "scope (echo_driver [''BEGIN IMMEDIATE TRANSACTION;''] [''COMMIT TRANSACTION;''])
     (addDatabase ''0'') Immediate [Commit] world0
   = (\<lparr>engine = (),
       submitted = [''BEGIN IMMEDIATE TRANSACTION;'', ''COMMIT TRANSACTION;'']\<rparr>,
      Inl (Exception 2 ''database is locked''))"
  by (simp add: scope_def Transaction_new_def Transaction_delete_def commit_def exec_one_statement
      echo_driver_def world0_def query_prepare_def query_exec_def new_query_def
      setForwardOnly_def checkQueryError_def Let_def)





subsection \<open>Binding and reading values\<close>

lemma run_delivers_row:
  assumes "run drv s w = (s', w', Inr True)"
  shows "isValid s' \<and> lastError s' = NoError \<and> boundValues s' = boundValues s"
  using assms
  by (auto simp: run_def query_exec_def query_next_def checkQueryError_def setForwardOnly_def
      isValid_def Let_def split: if_splits prod.splits sum.splits list.splits QSqlError.splits)

lemma bindValue_position:
  "0 \<le> pos \<Longrightarrow> \<exists>q'. bindValue pos v q = Some q' \<and> boundValues q' ! nat pos = v
     \<and> lastError q' = lastError q"
  by (simp add: bindValue_def Let_def)

lemma bind_value_position:
  "1 \<le> offset \<Longrightarrow> boundValues (fst (bind_value offset v q)) ! nat (offset - 1) = v"
  using bindValue_position [of "offset - 1" v q]
  by (auto simp: bind_value_def)

lemma sdiv_mult_cancel: "0 < p \<Longrightarrow> (t * p) sdiv p = (t :: int)"
  by (simp add: signed_divide_int_def sgn_mult abs_mult mult_sgn_abs)

lemma int64_div_mult_cancel:
  fixes v period :: int64
  assumes "0 < sint period"
      and "- (2 ^ 63) \<le> sint v * sint period" and "sint v * sint period < 2 ^ 63"
  shows "int64_div (v * period) period = v"
proof -
  have "sint (v * period) = signed_take_bit 63 (sint v * sint period)"
    by (simp add: sint_word_mult)
  also have "\<dots> = sint v * sint period"
    using assms(2,3) by (rule signed_take_bit_int_eq_self)
  finally have "sint (v * period) sdiv sint period = sint v"
    using assms(1) by (simp add: sdiv_mult_cancel)
  then show ?thesis
    by (simp add: int64_div_def)
qed

lemma Statement_new_select_two:
  "Statement_new (echo_driver [''SELECT ?1, ?2''] []) (addDatabase ''0'') ''SELECT ?1, ?2'' world0
     = Inr select_two"
  by (simp add: Statement_new_def select_two_def echo_driver_def world0_def query_prepare_def
      new_query_def setForwardOnly_def)

text \<open>
  Claim C9. \<open>reset()\<close> and \<open>clearBindings()\<close> return the statement as it is: the bound
  values, the compiled text, the rows still to come and the current row are the same,
  and so is everything done with the statement afterwards.
\<close>

theorem reset_clearBindings_noop:
  "reset s = s \<and> clearBindings s = s
   \<and> boundValues (reset s) = boundValues s \<and> boundValues (clearBindings s) = boundValues s
   \<and> lastQuery (reset s) = lastQuery s \<and> lastQuery (clearBindings s) = lastQuery s
   \<and> prepared (reset s) = prepared s \<and> prepared (clearBindings s) = prepared s
   \<and> pending (reset s) = pending s \<and> pending (clearBindings s) = pending s
   \<and> current (reset s) = current s \<and> current (clearBindings s) = current s
   \<and> run drv (reset s) w = run drv s w \<and> run drv (clearBindings s) w = run drv s w"
  by (simp add: reset_def clearBindings_def)

text \<open>
  Claim C4, as the code has it. For every length above the largest \<open>int\<close>
  (2147483647), \<open>bind(offset, value, length, retain)\<close> throws
  \<open>std::range_error("value too long")\<close> and leaves the statement as it was. That is
  not the wrapper's \<open>Exception\<close>: it carries a message and no engine error code.
\<close>

theorem bind_too_long_range_error:
  assumes "2147483647 < len"
  shows "bind_bytes offset v len retain s = (s, Inl (range_error ''value too long''))
       \<and> \<not> is_Exception (range_error ''value too long'')"
  using assms by (simp add: bind_bytes_def)

theorem bind_too_long_range_error_witness:
  "(2147483647 :: nat) < 2147483648
   \<and> bind_bytes 1 ''abc'' 2147483648 True select_two
       = (select_two, Inl (range_error ''value too long''))"
proof -
  have len: "(2147483647 :: nat) < 2147483648" by simp
  from bind_too_long_range_error [OF len, of 1 "''abc''" True select_two] len
  show ?thesis by blast
qed

text \<open>
  Claim C4 as it is worded does not hold: a length of 2147483648 is answered with
  \<open>std::range_error\<close>, which is not an \<open>Exception\<close> with code and message.
\<close>

theorem bind_too_long_not_Exception:
  "snd (bind_bytes 1 ''abc'' 2147483648 True select_two) = Inl (range_error ''value too long'')
   \<and> is_Exception (projl (snd (bind_bytes 1 ''abc'' 2147483648 True select_two))) = False"
  by (simp add: bind_bytes_def)

text \<open>
  Claim C5. Bind SQL NULL at the parameter index \<open>offset\<close> (counted from 1) in one of
  the three ways the wrapper has: the null marker, an absent \<open>optional<std::string>\<close>
  or an absent \<open>optional<Timestamp>\<close>. Run the statement, and let it deliver a row
  whose column \<open>col\<close> holds the value bound at that index (a round-tripping query).
  Then each of the four extractions to an \<open>optional\<close> (of \<open>int64_t\<close>, \<open>double\<close>,
  \<open>std::string\<close> and \<open>Timestamp\<close>, the ones the wrapper defines) returns the absent
  value.
\<close>

theorem null_binds_read_back_absent:
  assumes "1 \<le> offset"
      and "b \<in> {bind_nullptr offset s, bind_optional_string retain offset None s,
                 bind_optional_Timestamp period offset None s}"
      and "run drv (fst b) w = (s', w', Inr True)"
      and "query_value s' col = boundValues (fst b) ! nat (offset - 1)"
  shows "get_optional_int64 cv s' col = Inr None
       \<and> get_optional_double cv s' col = Inr None
       \<and> get_optional_string cv s' col = Inr None
       \<and> get_optional_Timestamp period cv s' col = Inr None"
proof -
  from assms(2) have b: "b = bind_value offset QNull s"
    by (auto simp: bind_nullptr_def bind_optional_string_def bind_optional_Timestamp_def)
  with assms(1,4) have null: "query_value s' col = QNull"
    by (simp add: bind_value_position)
  from run_delivers_row [OF assms(3)] have "isValid s'" "lastError s' = NoError"
    by simp_all
  with null show ?thesis
    by (simp add: get_optional_int64_def get_optional_double_def get_optional_string_def
        get_optional_Timestamp_def checkQueryError_def isNull_def toByteArray_def)
qed

theorem null_binds_read_back_absent_witness:
  "bind_optional_string True 2 None select_two
     = (select_two\<lparr>boundValues := [QNull, QNull]\<rparr>, Inr ())
   \<and> run (echo_driver [''SELECT ?1, ?2''] []) (select_two\<lparr>boundValues := [QNull, QNull]\<rparr>) world0
     = (select_two\<lparr>boundValues := [QNull, QNull], current := Some [QNull, QNull]\<rparr>,
        world0\<lparr>submitted := [''SELECT ?1, ?2'']\<rparr>, Inr True)
   \<and> get_optional_int64 plain_conversions
        (select_two\<lparr>boundValues := [QNull, QNull], current := Some [QNull, QNull]\<rparr>) 1 = Inr None
   \<and> get_optional_double plain_conversions
        (select_two\<lparr>boundValues := [QNull, QNull], current := Some [QNull, QNull]\<rparr>) 1 = Inr None
   \<and> get_optional_string plain_conversions
        (select_two\<lparr>boundValues := [QNull, QNull], current := Some [QNull, QNull]\<rparr>) 1 = Inr None
   \<and> get_optional_Timestamp 1 plain_conversions
        (select_two\<lparr>boundValues := [QNull, QNull], current := Some [QNull, QNull]\<rparr>) 1 = Inr None"
proof -
  let ?s1 = "select_two\<lparr>boundValues := [QNull, QNull]\<rparr>"
  let ?s2 = "select_two\<lparr>boundValues := [QNull, QNull], current := Some [QNull, QNull]\<rparr>"
  have bound: "bind_optional_string True 2 None select_two = (?s1, Inr ())"
    by (simp add: bind_optional_string_def bind_nullptr_def bind_value_def bindValue_def
        checkQueryError_def select_two_def Let_def)
  have ran: "run (echo_driver [''SELECT ?1, ?2''] []) ?s1 world0
     = (?s2, world0\<lparr>submitted := [''SELECT ?1, ?2'']\<rparr>, Inr True)"
    by (simp add: run_def query_exec_def query_next_def setForwardOnly_def select_two_def
        echo_driver_def world0_def Let_def)
  have one: "(1 :: int) \<le> 2" by simp
  have mem: "bind_optional_string True 2 None select_two
      \<in> {bind_nullptr 2 select_two, bind_optional_string True 2 None select_two,
         bind_optional_Timestamp 1 2 None select_two}"
    by simp
  have ran': "run (echo_driver [''SELECT ?1, ?2''] []) (fst (bind_optional_string True 2 None select_two)) world0
     = (?s2, world0\<lparr>submitted := [''SELECT ?1, ?2'']\<rparr>, Inr True)"
    unfolding bound using ran by simp
  have col: "query_value ?s2 1 = boundValues (fst (bind_optional_string True 2 None select_two)) ! nat (2 - 1)"
    unfolding bound by (simp add: query_value_def select_two_def)
  from null_binds_read_back_absent [OF one mem ran' col, of plain_conversions] bound ran
  show ?thesis by blast
qed

text \<open>
  Claim C6, as the code has it. Let the clock count \<open>period\<close> ticks to the second and
  let \<open>v\<close> be a timestamp whose count of ticks since the epoch fits in 64 bits (with
  nanoseconds: \<open>v\<close> lies within 9223372036 seconds of the epoch). Bind \<open>v\<close> at the
  parameter index \<open>offset\<close> (counted from 1), run the statement, and let it deliver a
  row whose column \<open>col\<close> holds the value bound at that index (a round-tripping
  query). Then the value bound is the integer of the seconds of \<open>v\<close> since the epoch,
  and \<open>get<Timestamp>\<close> of the column is \<open>v\<close>, the time point of that many whole
  seconds.
\<close>

theorem timestamp_roundtrip_in_range:
  assumes "0 < sint period"
      and "- (2 ^ 63) \<le> sint v * sint period" and "sint v * sint period < 2 ^ 63"
      and "1 \<le> offset"
      and "run drv (fst (bind_Timestamp period offset v s)) w = (s', w', Inr True)"
      and "query_value s' col = boundValues (fst (bind_Timestamp period offset v s)) ! nat (offset - 1)"
  shows "boundValues (fst (bind_Timestamp period offset v s)) ! nat (offset - 1) = QLongLong (sint v)
       \<and> get_Timestamp period cv s' col = Inr v"
proof -
  have seconds: "to_time_t period (to_system_clock period v) = v"
    using assms(1-3) by (simp add: to_time_t_def to_system_clock_def int64_div_mult_cancel)
  have stored: "boundValues (fst (bind_Timestamp period offset v s)) ! nat (offset - 1)
           = QLongLong (sint v)"
    using assms(4) by (simp add: bind_Timestamp_def bind_int64_def seconds bind_value_position)
  with assms(6) have column: "query_value s' col = QLongLong (sint v)"
    by simp
  from run_delivers_row [OF assms(5)] have row: "isValid s'" "lastError s' = NoError"
    by simp_all
  have restored: "time_point_cast_seconds period (from_time_t period (word_of_int (sint v))) = v"
    using assms(1-3) by (simp add: time_point_cast_seconds_def from_time_t_def int64_div_mult_cancel)
  from row column restored have "get_Timestamp period cv s' col = Inr v"
    by (simp add: get_Timestamp_def checkQueryError_def value_int64_def)
  with stored show ?thesis by simp
qed

text \<open>
  An instance: a clock of nanoseconds and the last second whose count of nanoseconds
  fits in 64 bits.
\<close>

theorem timestamp_roundtrip_in_range_witness:
  "(0 :: int) < sint (1000000000 :: int64)
   \<and> - (2 ^ 63) \<le> sint (9223372036 :: int64) * sint (1000000000 :: int64)
   \<and> sint (9223372036 :: int64) * sint (1000000000 :: int64) < 2 ^ 63
   \<and> bind_Timestamp 1000000000 1 9223372036 select_two
     = (select_two\<lparr>boundValues := [QLongLong 9223372036]\<rparr>, Inr ())
   \<and> run (echo_driver [''SELECT ?1, ?2''] []) (select_two\<lparr>boundValues := [QLongLong 9223372036]\<rparr>) world0
     = (select_two\<lparr>boundValues := [QLongLong 9223372036], current := Some [QLongLong 9223372036]\<rparr>,
        world0\<lparr>submitted := [''SELECT ?1, ?2'']\<rparr>, Inr True)
   \<and> get_Timestamp 1000000000 plain_conversions
        (select_two\<lparr>boundValues := [QLongLong 9223372036], current := Some [QLongLong 9223372036]\<rparr>) 0
     = Inr 9223372036"
proof -
  let ?s1 = "select_two\<lparr>boundValues := [QLongLong 9223372036]\<rparr>"
  let ?s2 = "select_two\<lparr>boundValues := [QLongLong 9223372036], current := Some [QLongLong 9223372036]\<rparr>"
  have period: "(0 :: int) < sint (1000000000 :: int64)"
    and lower: "- (2 ^ 63) \<le> sint (9223372036 :: int64) * sint (1000000000 :: int64)"
    and upper: "sint (9223372036 :: int64) * sint (1000000000 :: int64) < 2 ^ 63"
    and one: "(1 :: int) \<le> 1"
    by simp_all
  have seconds: "to_time_t 1000000000 (to_system_clock 1000000000 9223372036) = 9223372036"
    by (simp add: to_time_t_def to_system_clock_def int64_div_def signed_divide_int_def)
  have bound: "bind_Timestamp 1000000000 1 9223372036 select_two = (?s1, Inr ())"
    unfolding bind_Timestamp_def seconds
    by (simp add: bind_int64_def bind_value_def bindValue_def checkQueryError_def
        select_two_def Let_def)
  have ran: "run (echo_driver [''SELECT ?1, ?2''] []) ?s1 world0
     = (?s2, world0\<lparr>submitted := [''SELECT ?1, ?2'']\<rparr>, Inr True)"
    by (simp add: run_def query_exec_def query_next_def setForwardOnly_def select_two_def
        echo_driver_def world0_def Let_def)
  have ran': "run (echo_driver [''SELECT ?1, ?2''] []) (fst (bind_Timestamp 1000000000 1 9223372036 select_two)) world0
     = (?s2, world0\<lparr>submitted := [''SELECT ?1, ?2'']\<rparr>, Inr True)"
    unfolding bound using ran by simp
  have col: "query_value ?s2 0
      = boundValues (fst (bind_Timestamp 1000000000 1 9223372036 select_two)) ! nat (1 - 1)"
    unfolding bound by (simp add: query_value_def select_two_def)
  from timestamp_roundtrip_in_range [OF period lower upper one ran' col, of plain_conversions]
  have "get_Timestamp 1000000000 plain_conversions ?s2 0 = Inr 9223372036"
    by blast
  with period lower upper bound ran show ?thesis by blast
qed

text \<open>
  Claim C6 as it is worded does not hold for every timestamp. With a clock of
  nanoseconds, the timestamp of 10000000000 seconds has a count of nanoseconds that
  does not fit in 64 bits: the value bound is -8446744073, and that is the timestamp
  read back.
\<close>

theorem timestamp_roundtrip_overflow:
  "bind_Timestamp 1000000000 1 10000000000 select_two
     = (select_two\<lparr>boundValues := [QLongLong (- 8446744073)]\<rparr>, Inr ())
   \<and> run (echo_driver [''SELECT ?1, ?2''] [])
        (select_two\<lparr>boundValues := [QLongLong (- 8446744073)]\<rparr>) world0
     = (select_two\<lparr>boundValues := [QLongLong (- 8446744073)],
                    current := Some [QLongLong (- 8446744073)]\<rparr>,
        world0\<lparr>submitted := [''SELECT ?1, ?2'']\<rparr>, Inr True)
   \<and> get_Timestamp 1000000000 plain_conversions
        (select_two\<lparr>boundValues := [QLongLong (- 8446744073)],
                    current := Some [QLongLong (- 8446744073)]\<rparr>) 0
     = Inr (- 8446744073)
   \<and> (- 8446744073 :: int64) \<noteq> 10000000000"
proof -
  have seconds: "to_time_t 1000000000 (to_system_clock 1000000000 10000000000) = - 8446744073"
    by (simp add: to_time_t_def to_system_clock_def int64_div_def signed_divide_int_def)
  have bound: "bind_Timestamp 1000000000 1 10000000000 select_two
     = (select_two\<lparr>boundValues := [QLongLong (- 8446744073)]\<rparr>, Inr ())"
    unfolding bind_Timestamp_def seconds
    by (simp add: bind_int64_def bind_value_def bindValue_def checkQueryError_def
        select_two_def Let_def)
  have ran: "run (echo_driver [''SELECT ?1, ?2''] [])
        (select_two\<lparr>boundValues := [QLongLong (- 8446744073)]\<rparr>) world0
     = (select_two\<lparr>boundValues := [QLongLong (- 8446744073)],
                    current := Some [QLongLong (- 8446744073)]\<rparr>,
        world0\<lparr>submitted := [''SELECT ?1, ?2'']\<rparr>, Inr True)"
    by (simp add: run_def query_exec_def query_next_def setForwardOnly_def select_two_def
        echo_driver_def world0_def Let_def)
  have restored: "time_point_cast_seconds 1000000000 (from_time_t 1000000000 (- 8446744073))
      = - 8446744073"
    by (simp add: time_point_cast_seconds_def from_time_t_def int64_div_def signed_divide_int_def)
  have got: "get_Timestamp 1000000000 plain_conversions
        (select_two\<lparr>boundValues := [QLongLong (- 8446744073)],
                    current := Some [QLongLong (- 8446744073)]\<rparr>) 0
     = Inr (- 8446744073)"
    using restored
    by (simp add: get_Timestamp_def isValid_def checkQueryError_def query_value_def
        value_int64_def select_two_def)
  have differ: "(- 8446744073 :: int64) \<noteq> 10000000000"
    by simp
  from bound ran got differ show ?thesis by blast
qed

text \<open>
  Claim C10, as the code has it. Let \<open>run()\<close> have delivered a row. On a column that
  is NULL, \<open>get<std::string>\<close> returns the empty string, without failing, and
  \<open>get<optional<std::string>>\<close> returns the absent value. The same holds on a
  column that is a BLOB of length zero, which reaches the wrapper as a null byte array
  although it is not NULL. On every other column the two agree: the optional holds the
  very string that \<open>get<std::string>\<close> returns.
\<close>

theorem get_string_and_optional_string:
  assumes "run drv s w = (s', w', Inr True)"
  shows "(query_value s' col = QNull \<longrightarrow>
            get_string cv s' col = Inr [] \<and> get_optional_string cv s' col = Inr None)
       \<and> (query_value s' col = QBytes None \<longrightarrow>
            get_string cv s' col = Inr [] \<and> get_optional_string cv s' col = Inr None)
       \<and> (query_value s' col \<noteq> QNull \<and> query_value s' col \<noteq> QBytes None \<longrightarrow>
            (\<exists>x. get_string cv s' col = Inr x \<and> get_optional_string cv s' col = Inr (Some x)))"
proof -
  from run_delivers_row [OF assms] have row: "isValid s'" "lastError s' = NoError"
    by simp_all
  have null: "query_value s' col = QNull \<longrightarrow>
            get_string cv s' col = Inr [] \<and> get_optional_string cv s' col = Inr None"
    using row
    by (simp add: get_string_def get_optional_string_def checkQueryError_def toByteArray_def
        constData_def)
  have empty_blob: "query_value s' col = QBytes None \<longrightarrow>
            get_string cv s' col = Inr [] \<and> get_optional_string cv s' col = Inr None"
    using row
    by (simp add: get_string_def get_optional_string_def checkQueryError_def toByteArray_def
        constData_def)
  have present: "query_value s' col \<noteq> QNull \<and> query_value s' col \<noteq> QBytes None \<longrightarrow>
            (\<exists>x. get_string cv s' col = Inr x \<and> get_optional_string cv s' col = Inr (Some x))"
  proof (cases "query_value s' col")
    case (QBytes b)
    then show ?thesis
      using row
      by (cases b)
         (simp_all add: get_string_def get_optional_string_def checkQueryError_def
          toByteArray_def constData_def)
  qed (use row in \<open>simp_all add: get_string_def get_optional_string_def checkQueryError_def
          toByteArray_def constData_def\<close>)
  show ?thesis by (intro conjI null empty_blob present)
qed

text \<open>
  An instance: a row with a NULL column, a column of three bytes and a BLOB of length
  zero.
\<close>

theorem get_string_and_optional_string_witness:
  "run (blob_driver [''SELECT ?1, ?2, ?3''])
      (select_three\<lparr>boundValues := [QNull, QBytes (Some ''abc''), QBytes (Some [])]\<rparr>) world0
     = (select_three\<lparr>boundValues := [QNull, QBytes (Some ''abc''), QBytes (Some [])],
                      current := Some [QNull, QBytes (Some ''abc''), QBytes None]\<rparr>,
        world0\<lparr>submitted := [''SELECT ?1, ?2, ?3'']\<rparr>, Inr True)
   \<and> get_string plain_conversions
        (select_three\<lparr>boundValues := [QNull, QBytes (Some ''abc''), QBytes (Some [])],
                      current := Some [QNull, QBytes (Some ''abc''), QBytes None]\<rparr>) 0
      = Inr []
   \<and> get_optional_string plain_conversions
        (select_three\<lparr>boundValues := [QNull, QBytes (Some ''abc''), QBytes (Some [])],
                      current := Some [QNull, QBytes (Some ''abc''), QBytes None]\<rparr>) 0
      = Inr None
   \<and> get_string plain_conversions
        (select_three\<lparr>boundValues := [QNull, QBytes (Some ''abc''), QBytes (Some [])],
                      current := Some [QNull, QBytes (Some ''abc''), QBytes None]\<rparr>) 1
      = Inr ''abc''
   \<and> get_optional_string plain_conversions
        (select_three\<lparr>boundValues := [QNull, QBytes (Some ''abc''), QBytes (Some [])],
                      current := Some [QNull, QBytes (Some ''abc''), QBytes None]\<rparr>) 1
      = Inr (Some ''abc'')
   \<and> get_string plain_conversions
        (select_three\<lparr>boundValues := [QNull, QBytes (Some ''abc''), QBytes (Some [])],
                      current := Some [QNull, QBytes (Some ''abc''), QBytes None]\<rparr>) 2
      = Inr []
   \<and> get_optional_string plain_conversions
        (select_three\<lparr>boundValues := [QNull, QBytes (Some ''abc''), QBytes (Some [])],
                      current := Some [QNull, QBytes (Some ''abc''), QBytes None]\<rparr>) 2
      = Inr None"
proof -
  let ?s1 = "select_three\<lparr>boundValues := [QNull, QBytes (Some ''abc''), QBytes (Some [])]\<rparr>"
  let ?s2 = "select_three\<lparr>boundValues := [QNull, QBytes (Some ''abc''), QBytes (Some [])],
                      current := Some [QNull, QBytes (Some ''abc''), QBytes None]\<rparr>"
  have ran: "run (blob_driver [''SELECT ?1, ?2, ?3'']) ?s1 world0
     = (?s2, world0\<lparr>submitted := [''SELECT ?1, ?2, ?3'']\<rparr>, Inr True)"
    by (simp add: run_def query_exec_def query_next_def setForwardOnly_def select_three_def
        blob_driver_def echo_driver_def as_column_def world0_def Let_def)
  have c0: "query_value ?s2 0 = QNull"
    and c1: "query_value ?s2 1 \<noteq> QNull \<and> query_value ?s2 1 \<noteq> QBytes None"
    and c2: "query_value ?s2 2 = QBytes None"
    by (simp_all add: query_value_def select_three_def)
  from get_string_and_optional_string [OF ran, of 0 plain_conversions] c0
  have null: "get_string plain_conversions ?s2 0 = Inr []"
    "get_optional_string plain_conversions ?s2 0 = Inr None"
    by blast+
  from get_string_and_optional_string [OF ran, of 2 plain_conversions] c2
  have empty_blob: "get_string plain_conversions ?s2 2 = Inr []"
    "get_optional_string plain_conversions ?s2 2 = Inr None"
    by blast+
  from get_string_and_optional_string [OF ran, of 1 plain_conversions] c1
  obtain x where x: "get_string plain_conversions ?s2 1 = Inr x"
    "get_optional_string plain_conversions ?s2 1 = Inr (Some x)"
    by blast
  have "get_string plain_conversions ?s2 1 = Inr ''abc''"
    by (simp add: get_string_def isValid_def checkQueryError_def query_value_def toByteArray_def
        constData_def select_three_def)
  with x have present: "get_string plain_conversions ?s2 1 = Inr ''abc''"
    "get_optional_string plain_conversions ?s2 1 = Inr (Some ''abc'')"
    by simp_all
  show ?thesis by (intro conjI ran null present empty_blob)
qed

text \<open>
  Claim C10 as it is worded does not hold. Bind the empty string at index 1 and run a
  statement that hands the value back: the engine stores a BLOB of length zero and the
  column, which is not NULL, reaches the wrapper as a null byte array. On it
  \<open>get<std::string>\<close> returns the empty string and \<open>get<optional<std::string>>\<close>
  the absent value: the two extractions differ on a column that is not NULL.
\<close>

theorem optional_string_absent_on_empty_blob:
  "bind_string 1 [] True select_two
     = (select_two\<lparr>boundValues := [QBytes (Some [])]\<rparr>, Inr ())
   \<and> run (blob_driver [''SELECT ?1, ?2'']) (select_two\<lparr>boundValues := [QBytes (Some [])]\<rparr>) world0
     = (select_two\<lparr>boundValues := [QBytes (Some [])], current := Some [QBytes None]\<rparr>,
        world0\<lparr>submitted := [''SELECT ?1, ?2'']\<rparr>, Inr True)
   \<and> query_value (select_two\<lparr>boundValues := [QBytes (Some [])], current := Some [QBytes None]\<rparr>) 0
     = QBytes None
   \<and> QBytes None \<noteq> QNull
   \<and> get_string plain_conversions
        (select_two\<lparr>boundValues := [QBytes (Some [])], current := Some [QBytes None]\<rparr>) 0
     = Inr []
   \<and> get_optional_string plain_conversions
        (select_two\<lparr>boundValues := [QBytes (Some [])], current := Some [QBytes None]\<rparr>) 0
     = Inr None"
  by (simp add: bind_string_def bind_bytes_def bind_value_def bindValue_def run_def
      query_exec_def query_next_def setForwardOnly_def select_two_def blob_driver_def
      echo_driver_def as_column_def world0_def get_string_def get_optional_string_def
      isValid_def checkQueryError_def query_value_def toByteArray_def constData_def Let_def)

end
